theory Spec2Isabelle
  imports Main "HOL-Library.Word"
begin

section \<open>cloudflare-dns-sync: data model\<close>

text \<open>
  The program is one Go file, \<^verbatim>\<open>main.go\<close>. Go strings are byte strings and are
  modelled as \<^typ>\<open>string\<close>; a Go \<^verbatim>\<open>error\<close> value is modelled by its message, and
  \<^verbatim>\<open>nil\<close> by \<open>None\<close>.
\<close>

type_synonym error = string

text \<open>An instant of \<^verbatim>\<open>time.Time\<close>, as nanoseconds since the epoch; the program never reads it.\<close>

type_synonym Time = int

text \<open>The anonymous struct of the field \<^verbatim>\<open>Meta\<close>.\<close>

record Meta =
  AutoAdded :: bool
  ManagedByApps :: bool
  ManagedByArgoTunnel :: bool
  Source :: string

text \<open>
  \<^verbatim>\<open>type DnsRecordResponseEntry struct\<close>. The fields carry the prefix \<open>entry_\<close>,
  since record fields are global names and \<^verbatim>\<open>DnsRecord\<close> has fields of the same names.
\<close>

record DnsRecordResponseEntry =
  entry_Id :: string
  entry_ZoneId :: string
  entry_ZoneName :: string
  entry_Name :: string
  entry_Type :: string
  entry_Content :: string
  entry_Proxiable :: bool
  entry_Proxied :: bool
  entry_Ttl :: "64 word"
  entry_Locked :: bool
  entry_Meta :: Meta
  entry_CreatedOn :: Time
  entry_ModifiedOn :: Time

text \<open>\<^verbatim>\<open>type DnsRecord struct\<close>, fields with the prefix \<open>rec_\<close>.\<close>

record DnsRecord =
  rec_Id :: string
  rec_ZoneId :: string
  rec_Type :: string
  rec_Name :: string
  rec_Content :: string

text \<open>The constants of \<^verbatim>\<open>main.go\<close>, lines 18 to 22.\<close>

definition A :: string where
  "A = ''A''"

definition AAAA :: string where
  "AAAA = ''AAAA''"

definition CLOUDFLARE :: string where
  "CLOUDFLARE = ''https://api.cloudflare.com/client/v4/zones/''"

text \<open>\<^verbatim>\<open>func CreateDnsRecordFrom(entry DnsRecordResponseEntry) *DnsRecord\<close>: the value built.\<close>

definition CreateDnsRecordFrom :: "DnsRecordResponseEntry \<Rightarrow> DnsRecord" where
  "CreateDnsRecordFrom entry =
     \<lparr>rec_Id = entry_Id entry,
      rec_ZoneId = entry_ZoneId entry,
      rec_Type = entry_Type entry,
      rec_Name = entry_Name entry,
      rec_Content = entry_Content entry\<rparr>"

text \<open>\<^verbatim>\<open>func contains(list []string, value string) bool\<close>: the first equal item returns true.\<close>

primrec contains :: "string list \<Rightarrow> string \<Rightarrow> bool" where
  "contains [] v = False"
| "contains (item # list) v = (if item = v then True else contains list v)"

text \<open>
  \<^verbatim>\<open>strings.Split(s, sep)\<close> of the Go library for a separator of one byte, which is how
  \<^verbatim>\<open>main\<close> calls it (\<^verbatim>\<open>","\<close>): the pieces between the separators, empty pieces kept,
  and one empty piece for the empty string.
\<close>

fun strings_Split :: "string \<Rightarrow> char \<Rightarrow> string list" where
  "strings_Split [] sep = [[]]"
| "strings_Split (c # s) sep =
     (if c = sep then [] # strings_Split s sep
      else (case strings_Split s sep of
              [] \<Rightarrow> [[c]]
            | w # ws \<Rightarrow> (c # w) # ws))"

text \<open>
  Reading a Go map with the one-value form \<^verbatim>\<open>m[k]\<close>: the zero value, the empty string,
  for a key that is absent. The two-value form \<^verbatim>\<open>v, ok := m[k]\<close> is the map itself,
  \<open>m k\<close>, with \<open>None\<close> for \<^verbatim>\<open>!ok\<close>.
\<close>

definition map_index :: "(string \<rightharpoonup> string) \<Rightarrow> string \<Rightarrow> string" where
  "map_index m k = (case m k of None \<Rightarrow> [] | Some v \<Rightarrow> v)"

section \<open>The loop body of main: which records are updated\<close>

text \<open>
  Lines 92 to 106 of \<^verbatim>\<open>main\<close>, the part of the loop body before the update request: the
  projection, the name filter (\<^verbatim>\<open>continue\<close> is \<open>None\<close>), the comparison with the
  resolved address, and the overwrite of \<^verbatim>\<open>dnsRecord.Content\<close>. The result is the
  record handed to \<^verbatim>\<open>updateDnsRecord\<close> on line 108: the update instruction.
\<close>

definition reconcile_entry ::
  "(string \<rightharpoonup> string) \<Rightarrow> string list \<Rightarrow> DnsRecordResponseEntry \<Rightarrow> DnsRecord option" where
  "reconcile_entry ipAddresses dnsNames dnsRecordResponse =
     (let dnsRecord = CreateDnsRecordFrom dnsRecordResponse in
      if \<not> contains dnsNames (rec_Name dnsRecord) then None
      else (case ipAddresses (rec_Type dnsRecord) of
              None \<Rightarrow> None
            | Some currentContent \<Rightarrow>
                if currentContent = rec_Content dnsRecord then None
                else Some (dnsRecord\<lparr>rec_Content := map_index ipAddresses (rec_Type dnsRecord)\<rparr>)))"

section \<open>The outside world: HTTP, the Go library, the process\<close>

text \<open>
  A call either returns to its caller, or ends the process through \<^verbatim>\<open>log.Fatal\<close> (the
  message is logged and the exit status is 1), or panics (here only by a nil pointer
  dereference).
\<close>

datatype 'a exec = Return 'a | Fatal error | Panic string

definition nil_dereference :: string where
  "nil_dereference = ''runtime error: invalid memory address or nil pointer dereference''"

text \<open>
  An \<^verbatim>\<open>*http.Request\<close> as far as the program fills it: method, URL, headers (written in
  the order of the source's map literal) and the body, \<open>None\<close> for the \<^verbatim>\<open>nil\<close> body.
\<close>

record Request =
  Method :: string
  URL :: string
  Header :: "(string \<times> string list) list"
  ReqBody :: "string option"

text \<open>
  The \<^verbatim>\<open>io.ReadCloser\<close> of a response: what \<^verbatim>\<open>ioutil.ReadAll\<close> returns on it (the bytes
  read and the error) and what \<^verbatim>\<open>Close\<close> returns.
\<close>

record ReadCloser =
  ReadAll :: "string \<times> error option"
  Close :: "error option"

record Response =
  StatusCode :: int
  Status :: string
  Body :: ReadCloser

text \<open>The pair \<^verbatim>\<open>(*http.Response, error)\<close> of \<^verbatim>\<open>client.Do\<close> and \<^verbatim>\<open>http.Get\<close>.\<close>

type_synonym HttpResult = "Response option \<times> error option"

text \<open>
  What the program does to the world: the requests handed to the HTTP client, in order,
  and the text written to standard output.
\<close>

record State =
  sent :: "Request list"
  stdout :: string

text \<open>
  What the world and the Go library do, as parameters of the model:
  \<^item> \<open>net\<close>: the answer of the network to a request, which may depend on the requests
    sent before it;
  \<^item> \<open>url_Parse\<close>: the error with which \<^verbatim>\<open>http.NewRequest\<close> rejects a URL, if any;
  \<^item> \<open>json_Marshal\<close>: the bytes of \<^verbatim>\<open>json.Marshal(map[string]string{"content": c})\<close>
    for the content \<open>c\<close> (it has no error for a map of strings);
  \<^item> \<open>json_Unmarshal\<close>: \<^verbatim>\<open>json.Unmarshal\<close> into a \<^verbatim>\<open>DnsRecordsResponse\<close>, giving the
    error or the decoded field \<^verbatim>\<open>Result\<close>;
  \<^item> \<open>strings_TrimSpace\<close>: \<^verbatim>\<open>strings.TrimSpace\<close>.
\<close>

record Env =
  net :: "Request list \<Rightarrow> Request \<Rightarrow> HttpResult"
  url_Parse :: "string \<Rightarrow> error option"
  json_Marshal :: "string \<Rightarrow> string"
  json_Unmarshal :: "string \<Rightarrow> error + DnsRecordResponseEntry list"
  strings_TrimSpace :: "string \<Rightarrow> string"

text \<open>\<^verbatim>\<open>http.NewRequest\<close> with a method that is valid: it fails when the URL does not parse.\<close>

definition http_NewRequest :: "Env \<Rightarrow> string \<Rightarrow> string \<Rightarrow> string option \<Rightarrow> error + Request" where
  "http_NewRequest env method url body =
     (case url_Parse env url of
        Some err \<Rightarrow> Inl err
      | None \<Rightarrow> Inr \<lparr>Method = method, URL = url, Header = [], ReqBody = body\<rparr>)"

text \<open>\<^verbatim>\<open>client.Do(request)\<close>: the request goes out and the network answers.\<close>

definition client_Do :: "Env \<Rightarrow> Request \<Rightarrow> State \<Rightarrow> HttpResult \<times> State" where
  "client_Do env request st = (net env (sent st) request, st\<lparr>sent := sent st @ [request]\<rparr>)"

text \<open>\<^verbatim>\<open>http.Get(url)\<close>: a GET request without headers or body, through the default client.\<close>

definition http_Get :: "Env \<Rightarrow> string \<Rightarrow> State \<Rightarrow> HttpResult \<times> State" where
  "http_Get env url st =
     (case http_NewRequest env ''GET'' url None of
        Inl err \<Rightarrow> ((None, Some err), st)
      | Inr request \<Rightarrow> client_Do env request st)"

text \<open>
  The deferred function of \<^verbatim>\<open>updateDnsRecord\<close> and \<^verbatim>\<open>getDnsRecords\<close>: when the function
  leaves, by return or by panic, the body is closed, and an error of \<^verbatim>\<open>Close\<close> ends the
  process through \<^verbatim>\<open>log.Fatal\<close>. A process that has exited runs no deferred function.
\<close>

definition deferred_Close_Fatal :: "ReadCloser \<Rightarrow> 'a exec \<Rightarrow> 'a exec" where
  "deferred_Close_Fatal body result =
     (case result of
        Fatal m \<Rightarrow> Fatal m
      | _ \<Rightarrow> (case Close body of Some err \<Rightarrow> Fatal err | None \<Rightarrow> result))"

text \<open>\<^verbatim>\<open>fmt.Println\<close>: the operands separated by spaces, and a newline.\<close>

fun spaced :: "string list \<Rightarrow> string" where
  "spaced [] = []"
| "spaced [x] = x"
| "spaced (x # y # ys) = x @ '' '' @ spaced (y # ys)"

definition fmt_Println :: "string list \<Rightarrow> State \<Rightarrow> State" where
  "fmt_Println operands st = st\<lparr>stdout := stdout st @ spaced operands @ [CHR 0x0A]\<rparr>"

section \<open>The functions of main.go\<close>

text \<open>
  \<^verbatim>\<open>func updateDnsRecord(record DnsRecord, email string, key string) error\<close>, lines 115
  to 157. The error of \<^verbatim>\<open>json.Marshal\<close> is overwritten unread on line 122.
\<close>

definition update_error :: "string \<Rightarrow> Response \<Rightarrow> string \<Rightarrow> error" where
  "update_error data response bodyBytes =
     ''Could not update DNS record '' @ data @ [CHR 0x0A] @
     ''Response status: '' @ Status response @ [CHR 0x0A] @
     bodyBytes"

definition auth_Header :: "string \<Rightarrow> string \<Rightarrow> (string \<times> string list) list" where
  "auth_Header email key =
     [(''x-auth-email'', [email]),
      (''x-auth-key'', [key]),
      (''Content-Type'', [''application/json''])]"

definition updateDnsRecord ::
  "Env \<Rightarrow> DnsRecord \<Rightarrow> string \<Rightarrow> string \<Rightarrow> State \<Rightarrow> error option exec \<times> State" where
  "updateDnsRecord env record email key st =
     (let data = json_Marshal env (rec_Content record) in
      case http_NewRequest env ''PATCH''
             (CLOUDFLARE @ rec_ZoneId record @ ''/dns_records/'' @ rec_Id record) (Some data) of
        Inl err \<Rightarrow> (Return (Some err), st)
      | Inr request0 \<Rightarrow>
          (let request = request0\<lparr>Header := auth_Header email key\<rparr>;
               (result, st1) = client_Do env request st
           in case result of
                (_, Some err) \<Rightarrow> (Return (Some err), st1)
              | (None, None) \<Rightarrow> (Panic nil_dereference, st1)
              | (Some response, None) \<Rightarrow>
                  (deferred_Close_Fatal (Body response)
                     (case ReadAll (Body response) of
                        (bodyBytes, Some err) \<Rightarrow> Return (Some err)
                      | (bodyBytes, None) \<Rightarrow>
                          if StatusCode response \<noteq> 200
                          then Return (Some (update_error data response bodyBytes))
                          else Return None),
                   st1)))"

text \<open>
  \<^verbatim>\<open>func getExternalIpAddress(version string) (string, error)\<close>, lines 176 to 197. The
  deferred function ignores the error of \<^verbatim>\<open>Close\<close>. On the last line \<^verbatim>\<open>err\<close> is the
  variable of line 177, which line 178 has found to be \<^verbatim>\<open>nil\<close>.
\<close>

definition getExternalIpAddress ::
  "Env \<Rightarrow> string \<Rightarrow> State \<Rightarrow> (string \<times> error option) exec \<times> State" where
  "getExternalIpAddress env version st =
     (let ((response, err), st1) = http_Get env (''https://'' @ version @ ''.icanhazip.com/'') st
      in if err \<noteq> None then (Return ([], err), st1)
         else (case response of
                 None \<Rightarrow> (Panic nil_dereference, st1)
               | Some response \<Rightarrow>
                   if StatusCode response = 200
                   then (case ReadAll (Body response) of
                           (bodyBytes, Some err) \<Rightarrow> (Fatal err, st1)
                         | (bodyBytes, None) \<Rightarrow>
                             (Return (strings_TrimSpace env bodyBytes, None), st1))
                   else (Return ([], err), st1)))"

text \<open>
  \<^verbatim>\<open>func getExternalIpAddresses() (map[string]string, error)\<close>, lines 159 to 174. The
  \<^verbatim>\<open>nil\<close> map of the error returns is the empty map.
\<close>

definition getExternalIpAddresses ::
  "Env \<Rightarrow> State \<Rightarrow> ((string \<rightharpoonup> string) \<times> error option) exec \<times> State" where
  "getExternalIpAddresses env st =
     (case getExternalIpAddress env ''ipv4'' st of
        (Fatal m, st1) \<Rightarrow> (Fatal m, st1)
      | (Panic m, st1) \<Rightarrow> (Panic m, st1)
      | (Return (ipv4, Some err), st1) \<Rightarrow> (Return (Map.empty, Some err), st1)
      | (Return (ipv4, None), st1) \<Rightarrow>
          (case getExternalIpAddress env ''ipv6'' st1 of
             (Fatal m, st2) \<Rightarrow> (Fatal m, st2)
           | (Panic m, st2) \<Rightarrow> (Panic m, st2)
           | (Return (ipv6, Some err), st2) \<Rightarrow> (Return (Map.empty, Some err), st2)
           | (Return (ipv6, None), st2) \<Rightarrow>
               (Return ([A \<mapsto> ipv4, AAAA \<mapsto> ipv6], None), st2)))"

text \<open>
  \<^verbatim>\<open>func getDnsRecords(zoneId string, email string, key string)\<close>, lines 199 to 228. The
  error of \<^verbatim>\<open>client.Do\<close> (line 212) is not read before \<^verbatim>\<open>response.Body\<close> is evaluated
  for the deferred call (line 219); the error of \<^verbatim>\<open>ReadAll\<close> (line 221) is not read
  either, and the bytes read are decoded. The \<^verbatim>\<open>nil\<close> slice is the empty list.
\<close>

definition getDnsRecords ::
  "Env \<Rightarrow> string \<Rightarrow> string \<Rightarrow> string \<Rightarrow> State \<Rightarrow>
     (DnsRecordResponseEntry list \<times> error option) exec \<times> State" where
  "getDnsRecords env zoneId email key st =
     (case http_NewRequest env ''GET'' (CLOUDFLARE @ zoneId @ ''/dns_records'') None of
        Inl err \<Rightarrow> (Return ([], Some err), st)
      | Inr request0 \<Rightarrow>
          (let request = request0\<lparr>Header := auth_Header email key\<rparr>;
               ((response, err), st1) = client_Do env request st
           in case response of
                None \<Rightarrow> (Panic nil_dereference, st1)
              | Some response \<Rightarrow>
                  (deferred_Close_Fatal (Body response)
                     (let (body, err) = ReadAll (Body response)
                      in case json_Unmarshal env body of
                           Inl err \<Rightarrow> Return ([], Some err)
                         | Inr result \<Rightarrow> Return (result, None)),
                   st1)))"

text \<open>
  The loop of \<^verbatim>\<open>main\<close>, lines 91 to 111. \<^verbatim>\<open>fmt.Println\<close> prints the type, the name, the
  content before the overwrite (the content of the fetched entry) and the resolved
  address (the content after it). An error of the update ends the process on line 109.
\<close>

fun main_loop ::
  "Env \<Rightarrow> (string \<rightharpoonup> string) \<Rightarrow> string list \<Rightarrow> string \<Rightarrow> string \<Rightarrow>
     DnsRecordResponseEntry list \<Rightarrow> State \<Rightarrow> unit exec \<times> State" where
  "main_loop env ipAddresses dnsNames email key [] st = (Return (), st)"
| "main_loop env ipAddresses dnsNames email key (dnsRecordResponse # rest) st =
     (case reconcile_entry ipAddresses dnsNames dnsRecordResponse of
        None \<Rightarrow> main_loop env ipAddresses dnsNames email key rest st
      | Some dnsRecord \<Rightarrow>
          (case updateDnsRecord env dnsRecord email key
                  (fmt_Println [rec_Type dnsRecord, rec_Name dnsRecord,
                                entry_Content dnsRecordResponse, ''->'',
                                rec_Content dnsRecord] st) of
             (Return None, st2) \<Rightarrow> main_loop env ipAddresses dnsNames email key rest st2
           | (Return (Some err), st2) \<Rightarrow> (Fatal err, st2)
           | (Fatal m, st2) \<Rightarrow> (Fatal m, st2)
           | (Panic m, st2) \<Rightarrow> (Panic m, st2)))"

text \<open>
  The reconciliation of that loop by itself: lines 91 to 107, round by round in the order
  of \<^verbatim>\<open>range\<close>, with the record that line 108 hands to \<^verbatim>\<open>updateDnsRecord\<close> put on
  a list in place of the call. It is the instruction sequence of the loop; what a failed
  update does to the rest of a run is in \<open>main_loop\<close>.
\<close>

fun reconcile ::
  "(string \<rightharpoonup> string) \<Rightarrow> string list \<Rightarrow> DnsRecordResponseEntry list \<Rightarrow> DnsRecord list" where
  "reconcile ipAddresses dnsNames [] = []"
| "reconcile ipAddresses dnsNames (dnsRecordResponse # rest) =
     (case reconcile_entry ipAddresses dnsNames dnsRecordResponse of
        None \<Rightarrow> reconcile ipAddresses dnsNames rest
      | Some dnsRecord \<Rightarrow> dnsRecord # reconcile ipAddresses dnsNames rest)"

text \<open>
  \<^verbatim>\<open>func main()\<close>, lines 67 to 113, from the values of the four flags after
  \<^verbatim>\<open>flag.Parse\<close>. The pre-flight check of line 74 is \<open>missing_arguments\<close>.
\<close>

definition missing_arguments :: "string \<Rightarrow> string \<Rightarrow> string \<Rightarrow> string \<Rightarrow> bool" where
  "missing_arguments zoneId email key dnsNamesRawInput =
     (zoneId = [] \<or> email = [] \<or> key = [] \<or> dnsNamesRawInput = [])"

definition main :: "Env \<Rightarrow> string \<Rightarrow> string \<Rightarrow> string \<Rightarrow> string \<Rightarrow> State \<Rightarrow> unit exec \<times> State" where
  "main env zoneId email key dnsNamesRawInput st =
     (if missing_arguments zoneId email key dnsNamesRawInput
      then (Fatal ''Missing arguments. Use -h for help'', st)
      else
        (let dnsNames = strings_Split dnsNamesRawInput (CHR '','') in
         case getExternalIpAddresses env st of
           (Fatal m, st1) \<Rightarrow> (Fatal m, st1)
         | (Panic m, st1) \<Rightarrow> (Panic m, st1)
         | (Return (ipAddresses, Some err), st1) \<Rightarrow> (Fatal err, st1)
         | (Return (ipAddresses, None), st1) \<Rightarrow>
             (case getDnsRecords env zoneId email key st1 of
                (Fatal m, st2) \<Rightarrow> (Fatal m, st2)
              | (Panic m, st2) \<Rightarrow> (Panic m, st2)
              | (Return (dnsRecordsResponses, Some err), st2) \<Rightarrow> (Fatal err, st2)
              | (Return (dnsRecordsResponses, None), st2) \<Rightarrow>
                  main_loop env ipAddresses dnsNames email key dnsRecordsResponses st2)))"

section \<open>The requests and the record state the properties speak of\<close>

text \<open>The request that \<^verbatim>\<open>updateDnsRecord\<close> builds on lines 116 to 131 for a record.\<close>

definition update_request :: "Env \<Rightarrow> string \<Rightarrow> string \<Rightarrow> DnsRecord \<Rightarrow> Request" where
  "update_request env email key record =
     \<lparr>Method = ''PATCH'',
      URL = CLOUDFLARE @ rec_ZoneId record @ ''/dns_records/'' @ rec_Id record,
      Header = auth_Header email key,
      ReqBody = Some (json_Marshal env (rec_Content record))\<rparr>"

text \<open>
  The eligibility of a record in the words of the specification: its name is in the
  sync-name set, its type has a resolved entry, and its content differs from that entry.
\<close>

definition qualifies :: "(string \<rightharpoonup> string) \<Rightarrow> string list \<Rightarrow> DnsRecordResponseEntry \<Rightarrow> bool" where
  "qualifies addressSet syncNames e =
     (entry_Name e \<in> set syncNames \<and>
      (case addressSet (entry_Type e) of None \<Rightarrow> False | Some a \<Rightarrow> entry_Content e \<noteq> a))"

text \<open>
  The update instruction of the specification for a record: its id, its zone id, and the
  resolved address of its type as the new content.
\<close>

definition updated_record :: "(string \<rightharpoonup> string) \<Rightarrow> DnsRecordResponseEntry \<Rightarrow> DnsRecord" where
  "updated_record addressSet e =
     \<lparr>rec_Id = entry_Id e, rec_ZoneId = entry_ZoneId e, rec_Type = entry_Type e,
      rec_Name = entry_Name e, rec_Content = map_index addressSet (entry_Type e)\<rparr>"

text \<open>
  The record state after the provider has applied the instructions of a run: the content
  of every eligible record is the resolved address of its type, the rest is as it was.
\<close>

definition produced_state ::
  "(string \<rightharpoonup> string) \<Rightarrow> string list \<Rightarrow> DnsRecordResponseEntry list \<Rightarrow>
     DnsRecordResponseEntry list" where
  "produced_state addressSet syncNames records =
     map (\<lambda>e. if qualifies addressSet syncNames e
              then e\<lparr>entry_Content := map_index addressSet (entry_Type e)\<rparr> else e) records"

section \<open>The loop of main on a store\<close>

text \<open>
  \<^verbatim>\<open>CreateDnsRecordFrom\<close> returns a pointer, and line 106 writes through it. To say what
  the loop leaves unchanged, the elements of the slice \<^verbatim>\<open>dnsRecordsResponses\<close> and the
  \<^verbatim>\<open>DnsRecord\<close> values live in one store, addressed by numbers; \<open>brk\<close> is the first
  address that is not in use, where \<^verbatim>\<open>&DnsRecord{...}\<close> allocates.
\<close>

datatype obj = EntryObj DnsRecordResponseEntry | RecordObj DnsRecord

record Heap =
  cells :: "nat \<rightharpoonup> obj"
  brk :: nat

text \<open>\<^verbatim>\<open>&DnsRecord{...}\<close>: a new cell, and its address.\<close>

definition new_DnsRecord :: "DnsRecord \<Rightarrow> Heap \<Rightarrow> nat \<times> Heap" where
  "new_DnsRecord v h = (brk h, h\<lparr>cells := (cells h)(brk h \<mapsto> RecordObj v), brk := Suc (brk h)\<rparr>)"

text \<open>Reading through a \<^verbatim>\<open>*DnsRecord\<close>; \<open>None\<close> where the address holds no \<^verbatim>\<open>DnsRecord\<close>.\<close>

definition load_DnsRecord :: "Heap \<Rightarrow> nat \<Rightarrow> DnsRecord option" where
  "load_DnsRecord h p = (case cells h p of Some (RecordObj r) \<Rightarrow> Some r | _ \<Rightarrow> None)"

text \<open>\<^verbatim>\<open>dnsRecord.Content = v\<close>: the write through the pointer \<open>p\<close>.\<close>

definition store_Content :: "nat \<Rightarrow> string \<Rightarrow> Heap \<Rightarrow> Heap" where
  "store_Content p v h =
     (case load_DnsRecord h p of
        Some r \<Rightarrow> h\<lparr>cells := (cells h)(p \<mapsto> RecordObj (r\<lparr>rec_Content := v\<rparr>))\<rparr>
      | None \<Rightarrow> h)"

text \<open>
  The loop of lines 91 to 111 over the addresses of the slice elements, statement by
  statement: \<^verbatim>\<open>range\<close> copies the element, \<^verbatim>\<open>CreateDnsRecordFrom\<close> allocates the
  projection, the two filters read it through the pointer, line 104 prints, line 106
  writes through the pointer, and line 108 passes the record by value.
\<close>

fun main_loop_heap ::
  "Env \<Rightarrow> (string \<rightharpoonup> string) \<Rightarrow> string list \<Rightarrow> string \<Rightarrow> string \<Rightarrow>
     nat list \<Rightarrow> Heap \<Rightarrow> State \<Rightarrow> unit exec \<times> Heap \<times> State" where
  "main_loop_heap env ipAddresses dnsNames email key [] h st = (Return (), h, st)"
| "main_loop_heap env ipAddresses dnsNames email key (a # rest) h st =
     (case cells h a of
        Some (EntryObj dnsRecordResponse) \<Rightarrow>
          (let (p, h1) = new_DnsRecord (CreateDnsRecordFrom dnsRecordResponse) h in
           case load_DnsRecord h1 p of
             None \<Rightarrow> (Panic nil_dereference, h1, st)
           | Some dnsRecord \<Rightarrow>
               if \<not> contains dnsNames (rec_Name dnsRecord)
               then main_loop_heap env ipAddresses dnsNames email key rest h1 st
               else (case ipAddresses (rec_Type dnsRecord) of
                       None \<Rightarrow> main_loop_heap env ipAddresses dnsNames email key rest h1 st
                     | Some currentContent \<Rightarrow>
                         if currentContent = rec_Content dnsRecord
                         then main_loop_heap env ipAddresses dnsNames email key rest h1 st
                         else
                           (let st1 = fmt_Println [rec_Type dnsRecord, rec_Name dnsRecord,
                                        rec_Content dnsRecord, ''->'',
                                        map_index ipAddresses (rec_Type dnsRecord)] st;
                                h2 = store_Content p (map_index ipAddresses (rec_Type dnsRecord)) h1
                            in case load_DnsRecord h2 p of
                                 None \<Rightarrow> (Panic nil_dereference, h2, st1)
                               | Some record \<Rightarrow>
                                   (case updateDnsRecord env record email key st1 of
                                      (Return None, st2) \<Rightarrow>
                                        main_loop_heap env ipAddresses dnsNames email key rest h2 st2
                                    | (Return (Some err), st2) \<Rightarrow> (Fatal err, h2, st2)
                                    | (Fatal m, st2) \<Rightarrow> (Fatal m, h2, st2)
                                    | (Panic m, st2) \<Rightarrow> (Panic m, h2, st2)))))
      | _ \<Rightarrow> (Panic ''index out of range'', h, st))"

text \<open>The slice element at an address, and a slice whose elements were all allocated.\<close>

definition entry_at :: "Heap \<Rightarrow> nat \<Rightarrow> DnsRecordResponseEntry option" where
  "entry_at h a = (case cells h a of Some (EntryObj e) \<Rightarrow> Some e | _ \<Rightarrow> None)"

definition slice_ok :: "Heap \<Rightarrow> nat list \<Rightarrow> bool" where
  "slice_ok h elems = (\<forall>a \<in> set elems. a < brk h \<and> entry_at h a \<noteq> None)"

text \<open>What a computation from \<open>h\<close> to \<open>h'\<close> leaves alone: every cell that \<open>h\<close> had in use.\<close>

definition frame :: "Heap \<Rightarrow> Heap \<Rightarrow> bool" where
  "frame h h' = (brk h \<le> brk h' \<and> (\<forall>a < brk h. cells h' a = cells h a))"

section \<open>Example environments\<close>

text \<open>
  Concrete worlds for the scenarios of the specification. \<open>trim_ascii\<close> removes the ASCII
  white space that \<^verbatim>\<open>strings.TrimSpace\<close> removes; the JSON encoding of \<open>example_env\<close> is
  the one of \<^verbatim>\<open>json.Marshal\<close> for a content that needs no escaping.
\<close>

definition ascii_space :: "char \<Rightarrow> bool" where
  "ascii_space c = (c \<in> set [CHR 0x09, CHR 0x0A, CHR 0x0B, CHR 0x0C, CHR 0x0D, CHR '' ''])"

definition trim_ascii :: "string \<Rightarrow> string" where
  "trim_ascii s = rev (dropWhile ascii_space (rev (dropWhile ascii_space s)))"

text \<open>A response whose body reads in full and closes without error.\<close>

definition plain_Response :: "int \<Rightarrow> string \<Rightarrow> string \<Rightarrow> Response" where
  "plain_Response code status body =
     \<lparr>StatusCode = code, Status = status, Body = \<lparr>ReadAll = (body, None), Close = None\<rparr>\<rparr>"

text \<open>A network that answers by the URL of the request, with one answer for all other URLs.\<close>

definition by_URL ::
  "(string \<times> HttpResult) list \<Rightarrow> HttpResult \<Rightarrow> Request list \<Rightarrow> Request \<Rightarrow> HttpResult" where
  "by_URL table other history request =
     (case map_of table (URL request) of Some answer \<Rightarrow> answer | None \<Rightarrow> other)"

definition example_env ::
  "(Request list \<Rightarrow> Request \<Rightarrow> HttpResult) \<Rightarrow> DnsRecordResponseEntry list \<Rightarrow> Env" where
  \<open>example_env answer records =
     \<lparr>net = answer,
      url_Parse = (\<lambda>url. None),
      json_Marshal = (\<lambda>c. ''{"content":"'' @ c @ ''"}''),
      json_Unmarshal =
        (\<lambda>body. if body = [] then Inl ''unexpected end of JSON input'' else Inr records),
      strings_TrimSpace = trim_ascii\<rparr>\<close>

definition example_entry :: "string \<Rightarrow> string \<Rightarrow> string \<Rightarrow> string \<Rightarrow> DnsRecordResponseEntry" where
  "example_entry ident type name content =
     \<lparr>entry_Id = ident, entry_ZoneId = ''zone1'', entry_ZoneName = ''example.com'',
      entry_Name = name, entry_Type = type, entry_Content = content,
      entry_Proxiable = True, entry_Proxied = False, entry_Ttl = 1, entry_Locked = False,
      entry_Meta = \<lparr>AutoAdded = False, ManagedByApps = False, ManagedByArgoTunnel = False,
                    Source = ''primary''\<rparr>,
      entry_CreatedOn = 0, entry_ModifiedOn = 0\<rparr>"

definition home_entry :: "string \<Rightarrow> string \<Rightarrow> DnsRecordResponseEntry" where
  "home_entry ident content = example_entry ident ''A'' ''home.example.com'' content"

definition start :: State where
  "start = \<lparr>sent = [], stdout = []\<rparr>"

text \<open>Every request is answered with status 200.\<close>

definition ok_env :: Env where
  "ok_env = example_env (by_URL [] (Some (plain_Response 200 ''200 OK'' ''{}''), None)) []"

text \<open>Scenario 6: every request is answered with status 403.\<close>

definition forbidden_env :: Env where
  \<open>forbidden_env =
     example_env
       (by_URL [] (Some (plain_Response 403 ''403 Forbidden'' ''{"error":"forbidden"}''), None))
       []\<close>

text \<open>Scenario 5: the address echo answers 200 for ipv4 and 500 for ipv6.\<close>

definition scenario5_env :: Env where
  "scenario5_env =
     example_env
       (by_URL [(''https://ipv4.icanhazip.com/'',
                   (Some (plain_Response 200 ''200 OK'' (''203.0.113.7'' @ [CHR 0x0A])), None)),
                (''https://ipv6.icanhazip.com/'',
                   (Some (plain_Response 500 ''500 Internal Server Error''
                            ''Internal Server Error''), None))]
               (None, Some ''no such host''))
       []"

text \<open>No connection: \<^verbatim>\<open>client.Do\<close> returns no response, and an error.\<close>

definition unreachable_env :: Env where
  "unreachable_env = example_env (by_URL [] (None, Some ''dial tcp: connection refused'')) []"

text \<open>A response with status 200 whose body breaks off while it is read.\<close>

definition truncated_Response :: Response where
  "truncated_Response =
     \<lparr>StatusCode = 200, Status = ''200 OK'',
      Body = \<lparr>ReadAll = ([], Some ''unexpected EOF''), Close = None\<rparr>\<rparr>"

definition truncated_env :: Env where
  "truncated_env = example_env (by_URL [] (Some truncated_Response, None)) []"

text \<open>
  A world in which every request succeeds: the address echo answers, the provider lists
  one \<^verbatim>\<open>A\<close> record whose name is the empty string, and every update is accepted.
\<close>

definition listing_env :: Env where
  \<open>listing_env =
     example_env
       (by_URL [(''https://ipv4.icanhazip.com/'',
                   (Some (plain_Response 200 ''200 OK'' (''5.6.7.8'' @ [CHR 0x0A])), None)),
                (''https://ipv6.icanhazip.com/'',
                   (Some (plain_Response 200 ''200 OK'' (''2001:db8::1'' @ [CHR 0x0A])), None)),
                (''https://api.cloudflare.com/client/v4/zones/zone1/dns_records'',
                   (Some (plain_Response 200 ''200 OK''
                      ''{"result":[{"id":"r9","zone_id":"zone1","name":"","type":"A","content":"1.2.3.4"}]}''),
                    None))]
               (Some (plain_Response 200 ''200 OK'' ''{}''), None))
       [example_entry ''r9'' ''A'' [] ''1.2.3.4'']\<close>

text \<open>A store with one slice element, at address 0.\<close>

definition example_heap :: Heap where
  "example_heap = \<lparr>cells = [0 \<mapsto> EntryObj (home_entry ''r1'' ''1.2.3.4'')], brk = 1\<rparr>"

lemmas example_defs =
  home_entry_def example_entry_def example_env_def by_URL_def plain_Response_def start_def
  A_def AAAA_def CLOUDFLARE_def

lemmas code_defs =
  reconcile_entry_def CreateDnsRecordFrom_def map_index_def updateDnsRecord_def
  http_NewRequest_def client_Do_def deferred_Close_Fatal_def fmt_Println_def update_error_def
  auth_Header_def update_request_def getExternalIpAddress_def getExternalIpAddresses_def
  getDnsRecords_def http_Get_def nil_dereference_def

section \<open>Lemmas on the model\<close>

lemma contains_set: "contains list v = (v \<in> set list)"
  by (induction list) auto

lemma reconcile_entry_qualifies:
  "reconcile_entry ip names e = (if qualifies ip names e then Some (updated_record ip e) else None)"
  by (auto simp: reconcile_entry_def CreateDnsRecordFrom_def contains_set map_index_def Let_def
         qualifies_def updated_record_def split: option.splits)

lemma sent_fmt_Println [simp]: "sent (fmt_Println operands st) = sent st"
  by (simp add: fmt_Println_def)

text \<open>\<^verbatim>\<open>updateDnsRecord\<close>, with the request it builds written as \<open>update_request\<close>.\<close>

lemma updateDnsRecord_cases:
  "updateDnsRecord env r email key st =
     (case url_Parse env (URL (update_request env email key r)) of
        Some err \<Rightarrow> (Return (Some err), st)
      | None \<Rightarrow>
         (case net env (sent st) (update_request env email key r) of
            (_, Some err) \<Rightarrow> Return (Some err)
          | (None, None) \<Rightarrow> Panic nil_dereference
          | (Some response, None) \<Rightarrow>
              deferred_Close_Fatal (Body response)
                (case ReadAll (Body response) of
                   (bodyBytes, Some err) \<Rightarrow> Return (Some err)
                 | (bodyBytes, None) \<Rightarrow>
                     if StatusCode response \<noteq> 200
                     then Return (Some (update_error (json_Marshal env (rec_Content r))
                                          response bodyBytes))
                     else Return None),
          st\<lparr>sent := sent st @ [update_request env email key r]\<rparr>))"
  by (simp add: updateDnsRecord_def http_NewRequest_def client_Do_def update_request_def Let_def
           split: option.splits prod.splits)

lemma updateDnsRecord_Return_None:
  "updateDnsRecord env r email key st = (Return None, st2) \<Longrightarrow>
   st2 = st\<lparr>sent := sent st @ [update_request env email key r]\<rparr>"
  by (auto simp: updateDnsRecord_cases split: option.splits)

lemma updateDnsRecord_sent:
  "sent (snd (updateDnsRecord env r email key st)) = sent st \<or>
   sent (snd (updateDnsRecord env r email key st)) = sent st @ [update_request env email key r]"
  by (simp add: updateDnsRecord_cases split: option.splits)

text \<open>A run of the loop that returns has sent one request for each eligible record, in order.\<close>

lemma main_loop_sent_complete:
  "fst (main_loop env ip names email key records st) = Return () \<Longrightarrow>
   sent (snd (main_loop env ip names email key records st)) =
     sent st @ map (update_request env email key)
                 (map (updated_record ip) (filter (qualifies ip names) records))"
proof (induction records arbitrary: st)
  case Nil
  then show ?case by simp
next
  case (Cons e rest)
  show ?case
  proof (cases "qualifies ip names e")
    case False
    with Cons show ?thesis by (simp add: reconcile_entry_qualifies)
  next
    case True
    let ?r = "updated_record ip e"
    let ?st1 = "fmt_Println [rec_Type ?r, rec_Name ?r, entry_Content e, ''->'', rec_Content ?r] st"
    obtain out st2 where u: "updateDnsRecord env ?r email key ?st1 = (out, st2)"
      by (cases "updateDnsRecord env ?r email key ?st1")
    with Cons.prems True have out: "out = Return None"
      by (auto simp: reconcile_entry_qualifies split: exec.splits option.splits)
    with u have st2: "st2 = ?st1\<lparr>sent := sent st @ [update_request env email key ?r]\<rparr>"
      by (auto dest: updateDnsRecord_Return_None)
    from True u out have step: "main_loop env ip names email key (e # rest) st =
        main_loop env ip names email key rest st2"
      by (simp add: reconcile_entry_qualifies)
    with Cons.prems have "fst (main_loop env ip names email key rest st2) = Return ()"
      by simp
    from Cons.IH [OF this] step st2 True show ?thesis by simp
  qed
qed

text \<open>Whatever the outcome, the requests of a run are an initial part of that sequence.\<close>

lemma main_loop_sent_prefix:
  "\<exists>k. sent (snd (main_loop env ip names email key records st)) =
     sent st @ take k (map (update_request env email key)
                 (map (updated_record ip) (filter (qualifies ip names) records)))"
proof (induction records arbitrary: st)
  case Nil
  then show ?case by simp
next
  case (Cons e rest)
  show ?case
  proof (cases "qualifies ip names e")
    case False
    with Cons show ?thesis by (simp add: reconcile_entry_qualifies)
  next
    case True
    let ?r = "updated_record ip e"
    let ?st1 = "fmt_Println [rec_Type ?r, rec_Name ?r, entry_Content e, ''->'', rec_Content ?r] st"
    let ?all = "map (update_request env email key)
                 (map (updated_record ip) (filter (qualifies ip names) rest))"
    obtain out st2 where u: "updateDnsRecord env ?r email key ?st1 = (out, st2)"
      by (cases "updateDnsRecord env ?r email key ?st1")
    show ?thesis
    proof (cases "out = Return None")
      case True
      with u have st2: "st2 = ?st1\<lparr>sent := sent st @ [update_request env email key ?r]\<rparr>"
        by (auto dest: updateDnsRecord_Return_None)
      from \<open>qualifies ip names e\<close> u True
      have step: "main_loop env ip names email key (e # rest) st =
          main_loop env ip names email key rest st2"
        by (simp add: reconcile_entry_qualifies)
      from Cons.IH [of st2] obtain k where
        "sent (snd (main_loop env ip names email key rest st2)) = sent st2 @ take k ?all" ..
      with step st2 \<open>qualifies ip names e\<close> have
        "sent (snd (main_loop env ip names email key (e # rest) st)) =
           sent st @ take (Suc k) (map (update_request env email key)
                 (map (updated_record ip) (filter (qualifies ip names) (e # rest))))"
        by simp
      then show ?thesis ..
    next
      case False
      with \<open>qualifies ip names e\<close> u
      have stop: "snd (main_loop env ip names email key (e # rest) st) = st2"
        by (auto simp: reconcile_entry_qualifies split: exec.splits option.splits)
      from updateDnsRecord_sent [of env ?r email key ?st1] u
      have "sent st2 = sent st \<or> sent st2 = sent st @ [update_request env email key ?r]"
        by simp
      then show ?thesis
      proof
        assume "sent st2 = sent st"
        with stop have "sent (snd (main_loop env ip names email key (e # rest) st)) =
           sent st @ take 0 (map (update_request env email key)
                 (map (updated_record ip) (filter (qualifies ip names) (e # rest))))"
          by simp
        then show ?thesis ..
      next
        assume "sent st2 = sent st @ [update_request env email key ?r]"
        with stop \<open>qualifies ip names e\<close>
        have "sent (snd (main_loop env ip names email key (e # rest) st)) =
           sent st @ take 1 (map (update_request env email key)
                 (map (updated_record ip) (filter (qualifies ip names) (e # rest))))"
          by simp
        then show ?thesis ..
      qed
    qed
  qed
qed

lemma main_loop_append:
  "fst (main_loop env ip names email key xs st) = Return () \<Longrightarrow>
   main_loop env ip names email key (xs @ ys) st =
     main_loop env ip names email key ys (snd (main_loop env ip names email key xs st))"
proof (induction xs arbitrary: st)
  case Nil
  then show ?case by simp
next
  case (Cons e xs)
  then show ?case
    by (auto split: option.splits prod.splits exec.splits)
qed

lemma not_qualifies_produced:
  "qualifies ip names e \<Longrightarrow>
   \<not> qualifies ip names (e\<lparr>entry_Content := map_index ip (entry_Type e)\<rparr>)"
  by (auto simp: qualifies_def map_index_def split: option.splits)

lemma main_loop_none_qualify:
  "\<forall>e \<in> set records. \<not> qualifies ip names e \<Longrightarrow>
   main_loop env ip names email key records st = (Return (), st)"
  by (induction records) (simp_all add: reconcile_entry_qualifies)

text \<open>The instruction sequence of the loop, in the words of the specification.\<close>

lemma reconcile_filter:
  "reconcile ip names records = map (updated_record ip) (filter (qualifies ip names) records)"
  by (induction records) (simp_all add: reconcile_entry_qualifies)

text \<open>
  The loop and its instruction sequence: the requests of a run are those of an initial
  part of the sequence, in order; and in a world where no update fails the loop returns
  and has sent the request of every instruction.
\<close>

lemma main_loop_sent_reconcile:
  "\<exists>k. sent (snd (main_loop env ip names email key records st)) =
     sent st @ map (update_request env email key) (take k (reconcile ip names records))"
  using main_loop_sent_prefix [of env ip names email key records st]
  by (simp add: reconcile_filter take_map)

lemma main_loop_returns:
  "(\<And>r s. fst (updateDnsRecord env r email key s) = Return None) \<Longrightarrow>
   fst (main_loop env ip names email key records st) = Return ()"
proof (induction records arbitrary: st)
  case Nil
  then show ?case by simp
next
  case (Cons e rest)
  show ?case
  proof (cases "reconcile_entry ip names e")
    case None
    with Cons show ?thesis by simp
  next
    case (Some r)
    let ?st1 = "fmt_Println [rec_Type r, rec_Name r, entry_Content e, ''->'', rec_Content r] st"
    obtain out st2 where u: "updateDnsRecord env r email key ?st1 = (out, st2)"
      by (cases "updateDnsRecord env r email key ?st1")
    with Cons.prems [of r ?st1] have "out = Return None"
      by simp
    with Some u Cons.IH [OF Cons.prems, of st2] show ?thesis
      by simp
  qed
qed

lemma main_loop_all_updates_succeed:
  assumes "\<And>r s. fst (updateDnsRecord env r email key s) = Return None"
  shows "fst (main_loop env ip names email key records st) = Return () \<and>
         sent (snd (main_loop env ip names email key records st)) =
           sent st @ map (update_request env email key) (reconcile ip names records)"
  using main_loop_returns [OF assms] main_loop_sent_complete [of env ip names email key records st]
  by (simp add: reconcile_filter)

lemma strings_Split_not_Nil: "strings_Split s sep \<noteq> []"
  by (induction s) (auto split: list.splits)

text \<open>Splitting distributes over a separator: the pieces before it, then the pieces after it.\<close>

lemma strings_Split_append:
  "strings_Split (xs @ sep # ys) sep = strings_Split xs sep @ strings_Split ys sep"
proof (induction xs)
  case Nil
  then show ?case by simp
next
  case (Cons c xs)
  then show ?case
    using strings_Split_not_Nil [of xs sep] by (auto split: list.splits)
qed

subsection \<open>The address lookup and the record fetch, branch by branch\<close>

lemma getExternalIpAddress_error:
  "http_Get env (''https://'' @ version @ ''.icanhazip.com/'') st = ((response, Some err), st1) \<Longrightarrow>
   getExternalIpAddress env version st = (Return ([], Some err), st1)"
  by (simp add: getExternalIpAddress_def)

lemma getExternalIpAddress_200:
  "http_Get env (''https://'' @ version @ ''.icanhazip.com/'') st = ((Some response, None), st1) \<Longrightarrow>
   StatusCode response = 200 \<Longrightarrow> ReadAll (Body response) = (bodyBytes, None) \<Longrightarrow>
   getExternalIpAddress env version st = (Return (strings_TrimSpace env bodyBytes, None), st1)"
  by (simp add: getExternalIpAddress_def)

lemma getExternalIpAddress_not_200:
  "http_Get env (''https://'' @ version @ ''.icanhazip.com/'') st = ((Some response, None), st1) \<Longrightarrow>
   StatusCode response \<noteq> 200 \<Longrightarrow>
   getExternalIpAddress env version st = (Return ([], None), st1)"
  by (simp add: getExternalIpAddress_def)

lemma getExternalIpAddresses_both:
  "getExternalIpAddress env ''ipv4'' st = (Return (ipv4, None), st1) \<Longrightarrow>
   getExternalIpAddress env ''ipv6'' st1 = (Return (ipv6, None), st2) \<Longrightarrow>
   getExternalIpAddresses env st = (Return ([A \<mapsto> ipv4, AAAA \<mapsto> ipv6], None), st2)"
  by (simp add: getExternalIpAddresses_def)

lemma getExternalIpAddresses_error:
  "fst (getExternalIpAddresses env st) = Return (m, Some err) \<Longrightarrow> m = Map.empty"
  by (auto simp: getExternalIpAddresses_def split: prod.splits exec.splits option.splits)

lemma getDnsRecords_nil_response:
  "url_Parse env (CLOUDFLARE @ zoneId @ ''/dns_records'') = None \<Longrightarrow>
   fst (net env (sent st)
          \<lparr>Method = ''GET'', URL = CLOUDFLARE @ zoneId @ ''/dns_records'',
           Header = auth_Header email key, ReqBody = None\<rparr>) = None \<Longrightarrow>
   fst (getDnsRecords env zoneId email key st) = Panic nil_dereference"
  by (auto simp: getDnsRecords_def http_NewRequest_def client_Do_def Let_def split: prod.splits)

lemma getDnsRecords_response:
  "url_Parse env (CLOUDFLARE @ zoneId @ ''/dns_records'') = None \<Longrightarrow>
   fst (net env (sent st)
          \<lparr>Method = ''GET'', URL = CLOUDFLARE @ zoneId @ ''/dns_records'',
           Header = auth_Header email key, ReqBody = None\<rparr>) = Some response \<Longrightarrow>
   Close (Body response) = None \<Longrightarrow>
   fst (getDnsRecords env zoneId email key st) =
     (case json_Unmarshal env (fst (ReadAll (Body response))) of
        Inl err \<Rightarrow> Return ([], Some err)
      | Inr result \<Rightarrow> Return (result, None))"
  by (auto simp: getDnsRecords_def http_NewRequest_def client_Do_def deferred_Close_Fatal_def
        Let_def split: prod.splits sum.splits)

subsection \<open>The loop on the store\<close>

lemma frame_refl: "frame h h"
  by (simp add: frame_def)

lemma frame_trans: "frame h h1 \<Longrightarrow> frame h1 h2 \<Longrightarrow> frame h h2"
  by (auto simp: frame_def)

lemma frame_new: "frame h (snd (new_DnsRecord v h))"
  by (simp add: new_DnsRecord_def frame_def)

lemma frame_store: "brk h \<le> p \<Longrightarrow> frame h h1 \<Longrightarrow> frame h (store_Content p v h1)"
  by (auto simp: store_Content_def frame_def split: option.splits)

text \<open>One round of the loop on the store, in terms of \<open>reconcile_entry\<close>.\<close>

lemma main_loop_heap_step:
  assumes "entry_at h a = Some e"
  shows "main_loop_heap env ip names email key (a # rest) h st =
     (let h1 = snd (new_DnsRecord (CreateDnsRecordFrom e) h) in
      case reconcile_entry ip names e of
        None \<Rightarrow> main_loop_heap env ip names email key rest h1 st
      | Some r \<Rightarrow>
         (let h2 = store_Content (brk h) (rec_Content r) h1 in
          case updateDnsRecord env r email key
                 (fmt_Println [rec_Type r, rec_Name r, entry_Content e, ''->'', rec_Content r] st) of
            (Return None, st2) \<Rightarrow> main_loop_heap env ip names email key rest h2 st2
          | (Return (Some err), st2) \<Rightarrow> (Fatal err, h2, st2)
          | (Fatal m, st2) \<Rightarrow> (Fatal m, h2, st2)
          | (Panic m, st2) \<Rightarrow> (Panic m, h2, st2)))"
proof -
  from assms have c: "cells h a = Some (EntryObj e)"
    by (auto simp: entry_at_def split: option.splits obj.splits)
  show ?thesis
    using c
    by (auto simp: new_DnsRecord_def load_DnsRecord_def store_Content_def reconcile_entry_def
          map_index_def Let_def CreateDnsRecordFrom_def
          split: option.splits prod.splits exec.splits)
qed

text \<open>
  The loop on the store leaves every cell that was in use as it was, and its outcome and
  its effects on the world are those of \<open>main_loop\<close> on the values of the slice.
\<close>

lemma main_loop_heap_frame_refines:
  "slice_ok h elems \<Longrightarrow>
   frame h (fst (snd (main_loop_heap env ip names email key elems h st))) \<and>
   (fst (main_loop_heap env ip names email key elems h st),
    snd (snd (main_loop_heap env ip names email key elems h st))) =
   main_loop env ip names email key (map (\<lambda>a. the (entry_at h a)) elems) st"
proof (induction elems arbitrary: h st)
  case Nil
  then show ?case by (simp add: frame_refl)
next
  case (Cons a rest)
  from Cons.prems obtain e where e: "entry_at h a = Some e" and a: "a < brk h"
    and rest: "\<forall>b \<in> set rest. b < brk h \<and> entry_at h b \<noteq> None"
    by (auto simp: slice_ok_def)
  let ?h1 = "snd (new_DnsRecord (CreateDnsRecordFrom e) h)"
  have f1: "frame h ?h1"
    by (rule frame_new)
  have keep_ok: "\<And>h'. frame h h' \<Longrightarrow> slice_ok h' rest"
    using rest by (auto simp: frame_def slice_ok_def entry_at_def)
  have keep_map: "\<And>h'. frame h h' \<Longrightarrow>
      map (\<lambda>a. the (entry_at h' a)) rest = map (\<lambda>a. the (entry_at h a)) rest"
    using rest by (auto simp: frame_def entry_at_def)
  show ?case
  proof (cases "reconcile_entry ip names e")
    case None
    with e have step: "main_loop_heap env ip names email key (a # rest) h st =
        main_loop_heap env ip names email key rest ?h1 st"
      by (simp add: main_loop_heap_step del: main_loop_heap.simps(2))
    note ih = Cons.IH [OF keep_ok [OF f1], of st, unfolded keep_map [OF f1]]
    from ih step f1 None e show ?thesis
      by (auto intro: frame_trans)
  next
    case (Some r)
    let ?h2 = "store_Content (brk h) (rec_Content r) ?h1"
    let ?st1 = "fmt_Println [rec_Type r, rec_Name r, entry_Content e, ''->'', rec_Content r] st"
    have f2: "frame h ?h2"
      using f1 by (simp add: frame_store)
    obtain out st2 where u: "updateDnsRecord env r email key ?st1 = (out, st2)"
      by (cases "updateDnsRecord env r email key ?st1")
    show ?thesis
    proof (cases "out = Return None")
      case True
      with e Some u have step: "main_loop_heap env ip names email key (a # rest) h st =
          main_loop_heap env ip names email key rest ?h2 st2"
        by (simp add: main_loop_heap_step Let_def del: main_loop_heap.simps(2))
      note ih = Cons.IH [OF keep_ok [OF f2], of st2, unfolded keep_map [OF f2]]
      from ih step f2 Some e u True show ?thesis
        by (auto intro: frame_trans)
    next
      case False
      with e Some u f2 show ?thesis
        by (auto simp: main_loop_heap_step Let_def simp del: main_loop_heap.simps(2)
              split: exec.splits option.splits)
    qed
  qed
qed

subsection \<open>A run of main\<close>

text \<open>
  With the names \<^verbatim>\<open>home.example.com,\<close> the program resolves both addresses, fetches
  the records and updates the record whose name is empty.
\<close>

lemma main_example_run:
  \<open>main listing_env ''zone1'' ''me@example.com'' ''k'' ''home.example.com,'' start =
     (Return (),
      \<lparr>sent =
         [\<lparr>Method = ''GET'', URL = ''https://ipv4.icanhazip.com/'', Header = [],
           ReqBody = None\<rparr>,
          \<lparr>Method = ''GET'', URL = ''https://ipv6.icanhazip.com/'', Header = [],
           ReqBody = None\<rparr>,
          \<lparr>Method = ''GET'',
           URL = ''https://api.cloudflare.com/client/v4/zones/zone1/dns_records'',
           Header = [(''x-auth-email'', [''me@example.com'']), (''x-auth-key'', [''k'']),
                     (''Content-Type'', [''application/json''])],
           ReqBody = None\<rparr>,
          \<lparr>Method = ''PATCH'',
           URL = ''https://api.cloudflare.com/client/v4/zones/zone1/dns_records/r9'',
           Header = [(''x-auth-email'', [''me@example.com'']), (''x-auth-key'', [''k'']),
                     (''Content-Type'', [''application/json''])],
           ReqBody = Some ''{"content":"5.6.7.8"}''\<rparr>],
       stdout = ''A  1.2.3.4 -> 5.6.7.8'' @ [CHR 0x0A]\<rparr>)\<close>
  by (simp add: main_def missing_arguments_def code_defs example_defs listing_env_def
        trim_ascii_def ascii_space_def)

section \<open>The properties of the specification\<close>

text \<open>
  C1. The loop body hands a record to \<^verbatim>\<open>updateDnsRecord\<close> if and only if the name of the
  fetched record is one of the sync names (equal as a string), the address map has an
  entry for its type, and its content differs from that entry; the record handed over
  then carries the id and the zone id of the fetched record, and that entry as content.
\<close>

theorem reconcile_entry_emits:
  "((\<exists>r. reconcile_entry ipAddresses dnsNames e = Some r) \<longleftrightarrow>
      (entry_Name e \<in> set dnsNames \<and>
       (\<exists>a. ipAddresses (entry_Type e) = Some a \<and> entry_Content e \<noteq> a))) \<and>
   (\<forall>r. reconcile_entry ipAddresses dnsNames e = Some r \<longrightarrow>
      rec_Id r = entry_Id e \<and> rec_ZoneId r = entry_ZoneId e \<and>
      ipAddresses (entry_Type e) = Some (rec_Content r))"
  by (auto simp: reconcile_entry_def CreateDnsRecordFrom_def contains_set map_index_def Let_def
           split: option.splits if_splits)

theorem reconcile_entry_emits_witness:
  "entry_Name (home_entry ''r1'' ''1.2.3.4'') \<in> set [''home.example.com''] \<and>
   [A \<mapsto> ''5.6.7.8''] (entry_Type (home_entry ''r1'' ''1.2.3.4'')) = Some ''5.6.7.8'' \<and>
   (\<exists>r. reconcile_entry [A \<mapsto> ''5.6.7.8''] [''home.example.com'']
          (home_entry ''r1'' ''1.2.3.4'') = Some r \<and>
        rec_Id r = ''r1'' \<and> rec_ZoneId r = ''zone1'' \<and> rec_Content r = ''5.6.7.8'')"
  using reconcile_entry_emits [of "[A \<mapsto> ''5.6.7.8'']" "[''home.example.com'']"
          "home_entry ''r1'' ''1.2.3.4''"]
  by (auto simp: home_entry_def example_entry_def A_def)

text \<open>
  C2. The specification has the address lookup fail on every status other than 200. With
  the answer 500 for ipv6 (scenario 5) \<^verbatim>\<open>getExternalIpAddress\<close> returns the empty string
  and the \<^verbatim>\<open>nil\<close> error: the \<^verbatim>\<open>err\<close> of its last line is the one line 178 found \<^verbatim>\<open>nil\<close>.
\<close>

theorem getExternalIpAddress_status_500:
  "getExternalIpAddress scenario5_env ''ipv6'' start =
     (Return ([], None),
      \<lparr>sent = [\<lparr>Method = ''GET'', URL = ''https://ipv6.icanhazip.com/'', Header = [],
                ReqBody = None\<rparr>],
       stdout = []\<rparr>)"
  by (simp add: code_defs example_defs scenario5_env_def)

text \<open>
  C3. The specification has the record fetch return an error when the transport fails.
  When \<^verbatim>\<open>client.Do\<close> returns no response, \<^verbatim>\<open>getDnsRecords\<close> evaluates
  \<^verbatim>\<open>response.Body\<close> on line 219 without having read the error, and panics.
\<close>

theorem getDnsRecords_transport_failure_panics:
  "getDnsRecords unreachable_env ''zone1'' ''me@example.com'' ''k'' start =
     (Panic ''runtime error: invalid memory address or nil pointer dereference'',
      \<lparr>sent = [\<lparr>Method = ''GET'',
                URL = ''https://api.cloudflare.com/client/v4/zones/zone1/dns_records'',
                Header = [(''x-auth-email'', [''me@example.com'']), (''x-auth-key'', [''k'']),
                          (''Content-Type'', [''application/json''])],
                ReqBody = None\<rparr>],
       stdout = []\<rparr>)"
  by (simp add: code_defs example_defs unreachable_env_def)

text \<open>
  C4. The specification has \<^verbatim>\<open>getExternalIpAddresses\<close> return a map only when both
  lookups got status 200. With the answer 500 for ipv6 (scenario 5) it returns a map and
  no error, and the map gives the empty string for \<^verbatim>\<open>AAAA\<close>, which is not the body of
  that answer either.
\<close>

theorem getExternalIpAddresses_partial_map:
  "fst (getExternalIpAddresses scenario5_env start) =
     Return ([A \<mapsto> ''203.0.113.7'', AAAA \<mapsto> []], None)"
  by (simp add: code_defs example_defs scenario5_env_def trim_ascii_def ascii_space_def)

text \<open>
  C5, as stated: \<^verbatim>\<open>updateDnsRecord\<close> fails if and only if the status of the response is
  not 200. It does not hold: a response with status 200 whose body cannot be read makes
  \<^verbatim>\<open>updateDnsRecord\<close> return the error of \<^verbatim>\<open>ReadAll\<close> (line 147).
\<close>

theorem updateDnsRecord_status_200_fails:
  "net truncated_env (sent start)
       (update_request truncated_env ''me@example.com'' ''k''
          (updated_record [A \<mapsto> ''5.6.7.8''] (home_entry ''r1'' ''1.2.3.4''))) =
     (Some truncated_Response, None) \<and>
   StatusCode truncated_Response = 200 \<and>
   fst (updateDnsRecord truncated_env
          (updated_record [A \<mapsto> ''5.6.7.8''] (home_entry ''r1'' ''1.2.3.4''))
          ''me@example.com'' ''k'' start) = Return (Some ''unexpected EOF'')"
  by (simp add: code_defs example_defs truncated_env_def truncated_Response_def
        updated_record_def)

text \<open>
  C5, amended: when the request is built and answered without a transport error, and the
  body of the response is read in full and closed without error, \<^verbatim>\<open>updateDnsRecord\<close>
  returns \<^verbatim>\<open>nil\<close> if the status is 200, and otherwise an error made of the payload that was
  sent, the status line of the response and the text of its body.
\<close>

theorem updateDnsRecord_status:
  assumes "url_Parse env (URL (update_request env email key record)) = None"
    and "net env (sent st) (update_request env email key record) = (Some response, None)"
    and "ReadAll (Body response) = (bodyBytes, None)"
    and "Close (Body response) = None"
  shows "updateDnsRecord env record email key st =
           (if StatusCode response = 200 then Return None
            else Return (Some (''Could not update DNS record '' @
                                 json_Marshal env (rec_Content record) @ [CHR 0x0A] @
                               ''Response status: '' @ Status response @ [CHR 0x0A] @
                               bodyBytes)),
            st\<lparr>sent := sent st @ [update_request env email key record]\<rparr>) \<and>
         ReqBody (update_request env email key record) =
           Some (json_Marshal env (rec_Content record))"
  using assms
  by (simp add: updateDnsRecord_cases deferred_Close_Fatal_def update_error_def update_request_def)

theorem updateDnsRecord_status_witness:
  \<open>url_Parse forbidden_env (URL (update_request forbidden_env ''me@example.com'' ''k''
      (updated_record [A \<mapsto> ''5.6.7.8''] (home_entry ''r1'' ''1.2.3.4'')))) = None \<and>
   net forbidden_env (sent start) (update_request forbidden_env ''me@example.com'' ''k''
      (updated_record [A \<mapsto> ''5.6.7.8''] (home_entry ''r1'' ''1.2.3.4''))) =
     (Some (plain_Response 403 ''403 Forbidden'' ''{"error":"forbidden"}''), None) \<and>
   fst (updateDnsRecord forbidden_env
          (updated_record [A \<mapsto> ''5.6.7.8''] (home_entry ''r1'' ''1.2.3.4''))
          ''me@example.com'' ''k'' start) =
     Return (Some (''Could not update DNS record {"content":"5.6.7.8"}'' @ [CHR 0x0A] @
                   ''Response status: 403 Forbidden'' @ [CHR 0x0A] @ ''{"error":"forbidden"}''))\<close>
proof -
  let ?r = "updated_record [A \<mapsto> ''5.6.7.8''] (home_entry ''r1'' ''1.2.3.4'')"
  let ?resp = \<open>plain_Response 403 ''403 Forbidden'' ''{"error":"forbidden"}''\<close>
  have h1: "url_Parse forbidden_env
              (URL (update_request forbidden_env ''me@example.com'' ''k'' ?r)) = None"
    by (simp add: forbidden_env_def example_env_def)
  have h2: "net forbidden_env (sent start)
              (update_request forbidden_env ''me@example.com'' ''k'' ?r) = (Some ?resp, None)"
    by (simp add: forbidden_env_def example_env_def by_URL_def)
  have h3: \<open>ReadAll (Body ?resp) = (''{"error":"forbidden"}'', None)\<close>
    by (simp add: plain_Response_def)
  have h4: "Close (Body ?resp) = None"
    by (simp add: plain_Response_def)
  have c: "rec_Content ?r = ''5.6.7.8''"
    by (simp add: updated_record_def map_index_def home_entry_def example_entry_def A_def)
  have j: \<open>json_Marshal forbidden_env ''5.6.7.8'' = ''{"content":"5.6.7.8"}''\<close>
    by (simp add: forbidden_env_def example_env_def)
  have s: "StatusCode ?resp = 403" "Status ?resp = ''403 Forbidden''"
    by (simp_all add: plain_Response_def)
  from updateDnsRecord_status [OF h1 h2 h3 h4] have
    \<open>fst (updateDnsRecord forbidden_env ?r ''me@example.com'' ''k'' start) =
       Return (Some (''Could not update DNS record '' @
                       json_Marshal forbidden_env (rec_Content ?r) @ [CHR 0x0A] @
                     ''Response status: '' @ Status ?resp @ [CHR 0x0A] @
                     ''{"error":"forbidden"}''))\<close>
    by (simp add: s)
  with h1 h2 show ?thesis
    by (simp add: c j s)
qed

text \<open>
  C6. A record whose content is already the address map entry of its type gets no update;
  and on the record state that the instructions of a run produce, the loop sends no
  request, prints nothing and returns, whatever the world does.
\<close>

theorem reconcile_idempotent:
  "(ipAddresses (entry_Type e) = Some (entry_Content e) \<longrightarrow>
      reconcile_entry ipAddresses dnsNames e = None) \<and>
   main_loop env ipAddresses dnsNames email key
     (produced_state ipAddresses dnsNames records) st = (Return (), st)"
proof
  show "ipAddresses (entry_Type e) = Some (entry_Content e) \<longrightarrow>
      reconcile_entry ipAddresses dnsNames e = None"
    by (simp add: reconcile_entry_qualifies qualifies_def)
  show "main_loop env ipAddresses dnsNames email key
     (produced_state ipAddresses dnsNames records) st = (Return (), st)"
    by (rule main_loop_none_qualify) (auto simp: produced_state_def not_qualifies_produced)
qed

theorem reconcile_idempotent_witness:
  "[A \<mapsto> ''5.6.7.8''] (entry_Type (home_entry ''r1'' ''5.6.7.8'')) =
     Some (entry_Content (home_entry ''r1'' ''5.6.7.8'')) \<and>
   reconcile_entry [A \<mapsto> ''5.6.7.8''] [''home.example.com''] (home_entry ''r1'' ''5.6.7.8'') = None \<and>
   produced_state [A \<mapsto> ''5.6.7.8''] [''home.example.com''] [home_entry ''r1'' ''1.2.3.4''] =
     [home_entry ''r1'' ''5.6.7.8''] \<and>
   main_loop ok_env [A \<mapsto> ''5.6.7.8''] [''home.example.com''] ''me@example.com'' ''k''
     (produced_state [A \<mapsto> ''5.6.7.8''] [''home.example.com''] [home_entry ''r1'' ''1.2.3.4''])
     start = (Return (), start)"
  using reconcile_idempotent [of "[A \<mapsto> ''5.6.7.8'']" "home_entry ''r1'' ''5.6.7.8''"
     "[''home.example.com'']" ok_env "''me@example.com''" "''k''"
     "[home_entry ''r1'' ''1.2.3.4'']" start]
  by (simp add: home_entry_def example_entry_def A_def produced_state_def qualifies_def
        map_index_def)



text \<open>
  C8. When the records before an eligible record were handled without failure and the
  update of that record returns an error, the run ends there with \<^verbatim>\<open>log.Fatal\<close> of that
  error, in the state the failed update left: whatever records follow, no request is
  sent for them.
\<close>

theorem update_failure_aborts:
  assumes "fst (main_loop env ipAddresses dnsNames email key before st) = Return ()"
    and "reconcile_entry ipAddresses dnsNames e = Some r"
    and "updateDnsRecord env r email key
           (fmt_Println [rec_Type r, rec_Name r, entry_Content e, ''->'', rec_Content r]
              (snd (main_loop env ipAddresses dnsNames email key before st))) =
         (Return (Some err), st')"
  shows "main_loop env ipAddresses dnsNames email key (before @ e # after) st = (Fatal err, st') \<and>
         (sent st' = sent (snd (main_loop env ipAddresses dnsNames email key before st)) \<or>
          sent st' = sent (snd (main_loop env ipAddresses dnsNames email key before st)) @
                       [update_request env email key r])"
proof
  from assms
  show "main_loop env ipAddresses dnsNames email key (before @ e # after) st = (Fatal err, st')"
    by (simp add: main_loop_append)
  from updateDnsRecord_sent [of env r email key
      "fmt_Println [rec_Type r, rec_Name r, entry_Content e, ''->'', rec_Content r]
              (snd (main_loop env ipAddresses dnsNames email key before st))"] assms(3)
  show "sent st' = sent (snd (main_loop env ipAddresses dnsNames email key before st)) \<or>
          sent st' = sent (snd (main_loop env ipAddresses dnsNames email key before st)) @
                       [update_request env email key r]"
    by simp
qed

theorem update_failure_aborts_witness:
  \<open>fst (main_loop forbidden_env [A \<mapsto> ''5.6.7.8''] [''home.example.com''] ''me@example.com''
          ''k'' [] start) = Return () \<and>
   reconcile_entry [A \<mapsto> ''5.6.7.8''] [''home.example.com''] (home_entry ''r1'' ''1.2.3.4'') =
     Some (updated_record [A \<mapsto> ''5.6.7.8''] (home_entry ''r1'' ''1.2.3.4'')) \<and>
   main_loop forbidden_env [A \<mapsto> ''5.6.7.8''] [''home.example.com''] ''me@example.com'' ''k''
     ([] @ home_entry ''r1'' ''1.2.3.4'' # [home_entry ''r2'' ''1.2.3.4'']) start =
     (Fatal (''Could not update DNS record {"content":"5.6.7.8"}'' @ [CHR 0x0A] @
             ''Response status: 403 Forbidden'' @ [CHR 0x0A] @ ''{"error":"forbidden"}''),
      \<lparr>sent = [\<lparr>Method = ''PATCH'',
                URL = ''https://api.cloudflare.com/client/v4/zones/zone1/dns_records/r1'',
                Header = [(''x-auth-email'', [''me@example.com'']), (''x-auth-key'', [''k'']),
                          (''Content-Type'', [''application/json''])],
                ReqBody = Some ''{"content":"5.6.7.8"}''\<rparr>],
       stdout = ''A home.example.com 1.2.3.4 -> 5.6.7.8'' @ [CHR 0x0A]\<rparr>)\<close>
proof -
  let ?ip = "[A \<mapsto> ''5.6.7.8'']"
  let ?e = "home_entry ''r1'' ''1.2.3.4''"
  let ?r = "updated_record ?ip ?e"
  have h1: "fst (main_loop forbidden_env ?ip [''home.example.com''] ''me@example.com'' ''k''
                   [] start) = Return ()"
    by simp
  have h2: "reconcile_entry ?ip [''home.example.com''] ?e = Some ?r"
    by (simp add: reconcile_entry_def CreateDnsRecordFrom_def map_index_def updated_record_def
          home_entry_def example_entry_def A_def)
  have h3: \<open>updateDnsRecord forbidden_env ?r ''me@example.com'' ''k''
           (fmt_Println [rec_Type ?r, rec_Name ?r, entry_Content ?e, ''->'', rec_Content ?r]
              (snd (main_loop forbidden_env ?ip [''home.example.com''] ''me@example.com'' ''k''
                      [] start))) =
     (Return (Some (''Could not update DNS record {"content":"5.6.7.8"}'' @ [CHR 0x0A] @
             ''Response status: 403 Forbidden'' @ [CHR 0x0A] @ ''{"error":"forbidden"}'')),
      \<lparr>sent = [\<lparr>Method = ''PATCH'',
                URL = ''https://api.cloudflare.com/client/v4/zones/zone1/dns_records/r1'',
                Header = [(''x-auth-email'', [''me@example.com'']), (''x-auth-key'', [''k'']),
                          (''Content-Type'', [''application/json''])],
                ReqBody = Some ''{"content":"5.6.7.8"}''\<rparr>],
       stdout = ''A home.example.com 1.2.3.4 -> 5.6.7.8'' @ [CHR 0x0A]\<rparr>)\<close>
    by (simp add: code_defs example_defs forbidden_env_def updated_record_def)
  from update_failure_aborts [OF h1 h2 h3, of "[home_entry ''r2'' ''1.2.3.4'']"] h1 h2
  show ?thesis by simp
qed

text \<open>
  C9. \<^verbatim>\<open>CreateDnsRecordFrom\<close> copies the five fields id, zone id, type, name and content
  into a value at a new address, which is the address of no slice element; and when the
  loop ends, however it ends, every cell that was in use before it, and so every element
  of the fetched slice, holds the value it held before. The outcome and the requests are
  those of the loop on the values.
\<close>

theorem main_loop_heap_leaves_entries:
  assumes "slice_ok h elems"
  shows "(\<forall>a \<in> set elems.
            cells (fst (snd (main_loop_heap env ipAddresses dnsNames email key elems h st))) a =
            cells h a) \<and>
         (\<forall>a < brk h.
            cells (fst (snd (main_loop_heap env ipAddresses dnsNames email key elems h st))) a =
            cells h a) \<and>
         (\<forall>e. CreateDnsRecordFrom e =
                \<lparr>rec_Id = entry_Id e, rec_ZoneId = entry_ZoneId e, rec_Type = entry_Type e,
                 rec_Name = entry_Name e, rec_Content = entry_Content e\<rparr>) \<and>
         (\<forall>v. fst (new_DnsRecord v h) \<notin> set elems) \<and>
         (fst (main_loop_heap env ipAddresses dnsNames email key elems h st),
          snd (snd (main_loop_heap env ipAddresses dnsNames email key elems h st))) =
           main_loop env ipAddresses dnsNames email key (map (\<lambda>a. the (entry_at h a)) elems) st"
proof -
  note r = main_loop_heap_frame_refines [OF assms, of env ipAddresses dnsNames email key st]
  from r have f: "\<forall>a < brk h.
            cells (fst (snd (main_loop_heap env ipAddresses dnsNames email key elems h st))) a =
            cells h a"
    by (simp add: frame_def)
  with assms have "\<forall>a \<in> set elems.
            cells (fst (snd (main_loop_heap env ipAddresses dnsNames email key elems h st))) a =
            cells h a"
    by (simp add: slice_ok_def)
  moreover from assms have "\<forall>v. fst (new_DnsRecord v h) \<notin> set elems"
    by (auto simp: slice_ok_def new_DnsRecord_def)
  moreover have "\<forall>e. CreateDnsRecordFrom e =
                \<lparr>rec_Id = entry_Id e, rec_ZoneId = entry_ZoneId e, rec_Type = entry_Type e,
                 rec_Name = entry_Name e, rec_Content = entry_Content e\<rparr>"
    by (simp add: CreateDnsRecordFrom_def)
  ultimately show ?thesis
    using f r by simp
qed

theorem main_loop_heap_leaves_entries_witness:
  "slice_ok example_heap [0] \<and>
   cells (fst (snd (main_loop_heap ok_env [A \<mapsto> ''5.6.7.8''] [''home.example.com'']
                      ''me@example.com'' ''k'' [0] example_heap start))) 0 =
     Some (EntryObj (home_entry ''r1'' ''1.2.3.4'')) \<and>
   cells (fst (snd (main_loop_heap ok_env [A \<mapsto> ''5.6.7.8''] [''home.example.com'']
                      ''me@example.com'' ''k'' [0] example_heap start))) 1 =
     Some (RecordObj \<lparr>rec_Id = ''r1'', rec_ZoneId = ''zone1'', rec_Type = ''A'',
                      rec_Name = ''home.example.com'', rec_Content = ''5.6.7.8''\<rparr>)"
proof -
  have ok: "slice_ok example_heap [0]"
    by (simp add: slice_ok_def example_heap_def entry_at_def)
  have w: "cells (fst (snd (main_loop_heap ok_env [A \<mapsto> ''5.6.7.8''] [''home.example.com'']
                      ''me@example.com'' ''k'' [0] example_heap start))) 1 =
     Some (RecordObj \<lparr>rec_Id = ''r1'', rec_ZoneId = ''zone1'', rec_Type = ''A'',
                      rec_Name = ''home.example.com'', rec_Content = ''5.6.7.8''\<rparr>)"
    by (simp add: code_defs example_defs ok_env_def example_heap_def new_DnsRecord_def
          load_DnsRecord_def store_Content_def)
  have c: "cells example_heap 0 = Some (EntryObj (home_entry ''r1'' ''1.2.3.4''))"
    by (simp add: example_heap_def)
  from main_loop_heap_leaves_entries [OF ok, of ok_env "[A \<mapsto> ''5.6.7.8'']"
      "[''home.example.com'']" "''me@example.com''" "''k''" start]
  have "cells (fst (snd (main_loop_heap ok_env [A \<mapsto> ''5.6.7.8''] [''home.example.com'']
                      ''me@example.com'' ''k'' [0] example_heap start))) 0 =
        cells example_heap 0"
    by (simp del: main_loop_heap.simps)
  with ok w c show ?thesis
    by (simp del: main_loop_heap.simps)
qed

text \<open>
  C10. A value of the names flag that ends in a comma, or has two commas in a row, is not
  empty, so it passes the check of line 74, and its list of sync names has the empty
  string as a member; a fetched record whose name is the empty string, whose type has a
  resolved address and whose content differs from it, is then handed to
  \<^verbatim>\<open>updateDnsRecord\<close>.
\<close>

theorem empty_sync_name:
  assumes "dnsNamesRawInput = pre @ '','' \<or> dnsNamesRawInput = pre @ '',,'' @ post"
    and "zoneId \<noteq> []" and "email \<noteq> []" and "key \<noteq> []"
  shows "\<not> missing_arguments zoneId email key dnsNamesRawInput \<and>
         [] \<in> set (strings_Split dnsNamesRawInput (CHR '','')) \<and>
         (entry_Name e = [] \<and> ipAddresses (entry_Type e) = Some a \<and> entry_Content e \<noteq> a \<longrightarrow>
          reconcile_entry ipAddresses (strings_Split dnsNamesRawInput (CHR '','')) e =
            Some ((CreateDnsRecordFrom e)\<lparr>rec_Content := a\<rparr>))"
proof -
  from assms have m: "\<not> missing_arguments zoneId email key dnsNamesRawInput"
    by (auto simp: missing_arguments_def)
  from assms(1) have s: "[] \<in> set (strings_Split dnsNamesRawInput (CHR '',''))"
  proof
    assume "dnsNamesRawInput = pre @ '',''"
    then show ?thesis
      using strings_Split_append [of pre "CHR '',''" "[]"] by simp
  next
    assume "dnsNamesRawInput = pre @ '',,'' @ post"
    then show ?thesis
      using strings_Split_append [of pre "CHR '',''" "CHR '','' # post"] by simp
  qed
  from s have
    "entry_Name e = [] \<and> ipAddresses (entry_Type e) = Some a \<and> entry_Content e \<noteq> a \<longrightarrow>
       reconcile_entry ipAddresses (strings_Split dnsNamesRawInput (CHR '','')) e =
         Some ((CreateDnsRecordFrom e)\<lparr>rec_Content := a\<rparr>)"
    by (auto simp: reconcile_entry_def contains_set map_index_def CreateDnsRecordFrom_def)
  with m s show ?thesis by simp
qed

theorem empty_sync_name_witness:
  "''home.example.com,'' = ''home.example.com'' @ '','' \<and>
   \<not> missing_arguments ''zone1'' ''me@example.com'' ''k'' ''home.example.com,'' \<and>
   [] \<in> set (strings_Split ''home.example.com,'' (CHR '','')) \<and>
   reconcile_entry [A \<mapsto> ''5.6.7.8''] (strings_Split ''home.example.com,'' (CHR '',''))
      (example_entry ''r9'' ''A'' [] ''1.2.3.4'') =
     Some \<lparr>rec_Id = ''r9'', rec_ZoneId = ''zone1'', rec_Type = ''A'', rec_Name = [],
           rec_Content = ''5.6.7.8''\<rparr>"
  using empty_sync_name [of "''home.example.com,''" "''home.example.com''" "[]" "''zone1''"
     "''me@example.com''" "''k''" "example_entry ''r9'' ''A'' [] ''1.2.3.4''" "[A \<mapsto> ''5.6.7.8'']"
     "''5.6.7.8''"]
  by (simp add: example_entry_def A_def CreateDnsRecordFrom_def)

end
